theory Spec2Isabelle
  imports Main "HOL-Library.Word"
begin

unbundle bit_operations_syntax

section \<open>Path-tree node types (include/aggregation/bson\_tree\_common.h)\<close>

text \<open>
  The C enum \<open>NodeType\<close>. Its members are kept as a datatype; \<open>NodeType_value\<close>
  gives each member the integer the enum assigns to it (a C \<open>int\<close>, here a 32-bit word).
  \<open>LEAF_NODE_BASE\<close> is the macro \<open>0x80\<close>.
\<close>

datatype NodeType =
    NodeType_None
  | NodeType_Intermediate
  | NodeType_LeafIncluded
  | NodeType_LeafExcluded
  | NodeType_LeafField
  | NodeType_LeafWithArrayField
  | NodeType_LeafFieldWithContext

definition LEAF_NODE_BASE :: "32 word" where
  "LEAF_NODE_BASE = 0x80"

fun NodeType_value :: "NodeType \<Rightarrow> 32 word" where
  "NodeType_value NodeType_None = 0"
| "NodeType_value NodeType_Intermediate = 0x1"
| "NodeType_value NodeType_LeafIncluded = LEAF_NODE_BASE"
| "NodeType_value NodeType_LeafExcluded = LEAF_NODE_BASE + 0x1"
| "NodeType_value NodeType_LeafField = LEAF_NODE_BASE + 0x2"
| "NodeType_value NodeType_LeafWithArrayField = LEAF_NODE_BASE + 0x3"
| "NodeType_value NodeType_LeafFieldWithContext = LEAF_NODE_BASE + 0x4"

text \<open>The macro \<^verbatim>\<open>#define NodeType_IsLeaf(x) ((x & LEAF_NODE_BASE) != 0)\<close>.\<close>

definition NodeType_IsLeaf :: "32 word \<Rightarrow> bool" where
  "NodeType_IsLeaf x = ((x AND LEAF_NODE_BASE) \<noteq> 0)"

section \<open>Aggregation stages (include/aggregation/bson\_aggregation\_pipeline\_private.h)\<close>

text \<open>
  The C enum \<open>Stage\<close>, member by member in the order of the header, and the integer each
  member gets: \<open>Stage_Invalid = 0\<close>, the internal stage at 1, the public stages counting
  up from 10, the custom or internal stages counting up from 100.
\<close>

datatype Stage =
    Stage_Invalid
  | Stage_Internal_InhibitOptimization
  | Stage_AddFields
  | Stage_Bucket
  | Stage_BucketAuto
  | Stage_ChangeStream
  | Stage_CollStats
  | Stage_Count
  | Stage_CurrentOp
  | Stage_Densify
  | Stage_Documents
  | Stage_Facet
  | Stage_Fill
  | Stage_GeoNear
  | Stage_GraphLookup
  | Stage_Group
  | Stage_IndexStats
  | Stage_Limit
  | Stage_ListLocalSessions
  | Stage_ListSessions
  | Stage_Lookup
  | Stage_Match
  | Stage_Merge
  | Stage_Out
  | Stage_Project
  | Stage_Redact
  | Stage_ReplaceRoot
  | Stage_ReplaceWith
  | Stage_Sample
  | Stage_Search
  | Stage_SearchMeta
  | Stage_Set
  | Stage_SetWindowFields
  | Stage_Skip
  | Stage_Sort
  | Stage_SortByCount
  | Stage_UnionWith
  | Stage_Unset
  | Stage_Unwind
  | Stage_VectorSearch
  | Stage_InverseMatch
  | Stage_LookupUnwind

fun Stage_value :: "Stage \<Rightarrow> nat" where
  "Stage_value Stage_Invalid = 0"
| "Stage_value Stage_Internal_InhibitOptimization = 1"
| "Stage_value Stage_AddFields = 10"
| "Stage_value Stage_Bucket = 11"
| "Stage_value Stage_BucketAuto = 12"
| "Stage_value Stage_ChangeStream = 13"
| "Stage_value Stage_CollStats = 14"
| "Stage_value Stage_Count = 15"
| "Stage_value Stage_CurrentOp = 16"
| "Stage_value Stage_Densify = 17"
| "Stage_value Stage_Documents = 18"
| "Stage_value Stage_Facet = 19"
| "Stage_value Stage_Fill = 20"
| "Stage_value Stage_GeoNear = 21"
| "Stage_value Stage_GraphLookup = 22"
| "Stage_value Stage_Group = 23"
| "Stage_value Stage_IndexStats = 24"
| "Stage_value Stage_Limit = 25"
| "Stage_value Stage_ListLocalSessions = 26"
| "Stage_value Stage_ListSessions = 27"
| "Stage_value Stage_Lookup = 28"
| "Stage_value Stage_Match = 29"
| "Stage_value Stage_Merge = 30"
| "Stage_value Stage_Out = 31"
| "Stage_value Stage_Project = 32"
| "Stage_value Stage_Redact = 33"
| "Stage_value Stage_ReplaceRoot = 34"
| "Stage_value Stage_ReplaceWith = 35"
| "Stage_value Stage_Sample = 36"
| "Stage_value Stage_Search = 37"
| "Stage_value Stage_SearchMeta = 38"
| "Stage_value Stage_Set = 39"
| "Stage_value Stage_SetWindowFields = 40"
| "Stage_value Stage_Skip = 41"
| "Stage_value Stage_Sort = 42"
| "Stage_value Stage_SortByCount = 43"
| "Stage_value Stage_UnionWith = 44"
| "Stage_value Stage_Unset = 45"
| "Stage_value Stage_Unwind = 46"
| "Stage_value Stage_VectorSearch = 47"
| "Stage_value Stage_InverseMatch = 100"
| "Stage_value Stage_LookupUnwind = 101"

text \<open>
  The three groups the header's banner comments delimit: a stage is a real stage when it
  is not \<open>Stage_Invalid\<close> (the value kept for error handling and initialisation); it is
  public when its value lies in the block that starts at 10, and internal or custom when
  it lies in the block at 1 or in the block that starts at 100.
\<close>

definition Stage_is_stage :: "Stage \<Rightarrow> bool" where
  "Stage_is_stage s = (Stage_value s \<noteq> 0)"

definition Stage_is_public :: "Stage \<Rightarrow> bool" where
  "Stage_is_public s = (10 \<le> Stage_value s \<and> Stage_value s < 100)"

definition Stage_is_internal_or_custom :: "Stage \<Rightarrow> bool" where
  "Stage_is_internal_or_custom s = (Stage_is_stage s \<and> \<not> Stage_is_public s)"

text \<open>
  The stage set as the specification words it (section 3.3): thirty-six public names,
  each mapped to the enum member of the same name, and two internal stages.
\<close>

definition spec_public_stages :: "Stage list" where
  "spec_public_stages =
    [Stage_Match, Stage_Project, Stage_AddFields, Stage_Set, Stage_Unset, Stage_Group,
     Stage_Sort, Stage_Limit, Stage_Skip, Stage_Unwind, Stage_Lookup, Stage_GraphLookup,
     Stage_Facet, Stage_UnionWith, Stage_BucketAuto, Stage_Densify, Stage_SetWindowFields,
     Stage_Fill, Stage_GeoNear, Stage_Search, Stage_VectorSearch, Stage_Out, Stage_Merge,
     Stage_Redact, Stage_ReplaceRoot, Stage_ReplaceWith, Stage_SortByCount, Stage_Sample,
     Stage_Count, Stage_ChangeStream, Stage_CurrentOp, Stage_IndexStats, Stage_CollStats,
     Stage_ListSessions, Stage_ListLocalSessions, Stage_Documents]"

definition spec_internal_stages :: "Stage list" where
  "spec_internal_stages = [Stage_Internal_InhibitOptimization, Stage_LookupUnwind]"

definition spec_stage_set :: "Stage set" where
  "spec_stage_set = set spec_public_stages \<union> set spec_internal_stages"

section \<open>Output size limit (include/commands/commands\_common.h)\<close>

text \<open>
  The macro \<^verbatim>\<open>#define BSON_MAX_ALLOWED_SIZE (16 * 1024 * 1024)\<close>: the maximum size, in
  bytes, of an output BSON document.
\<close>

definition BSON_MAX_ALLOWED_SIZE :: nat where
  "BSON_MAX_ALLOWED_SIZE = 16 * 1024 * 1024"

section \<open>Documents\<close>

text \<open>
  Modelled from the spec: BSON values (section 3.1), whose implementation is not among the
  sources. A value is a tagged union; a document is an ordered sequence of
  (field-name, value) pairs. The scalar tags kept here are the ones the stages below read.
\<close>

datatype bson_value =
    BNull
  | BBool bool
  | BInt32 int
  | BInt64 int
  | BString string
  | BObjectId string
  | BDocument "(string \<times> bson_value) list"
  | BArray "bson_value list"

type_synonym document = "(string \<times> bson_value) list"

text \<open>
  Modelled from the spec: reading a top-level field of a document (section 4.1,
  \<open>extract_path\<close> with a single segment): the first pair with that name, absent if none.
\<close>

definition get_field :: "string \<Rightarrow> document \<Rightarrow> bson_value option" where
  "get_field f d = map_of d f"

text \<open>
  Modelled from the spec: writing a top-level field. The field keeps its position when
  the document has it already and is appended otherwise (documents are ordered).
\<close>

fun set_field :: "string \<Rightarrow> bson_value \<Rightarrow> document \<Rightarrow> document" where
  "set_field f v [] = [(f, v)]"
| "set_field f v ((k, w) # d) = (if k = f then (f, v) # d else (k, w) # set_field f v d)"

text \<open>Modelled from the spec: dropping a top-level field from a document.\<close>

definition remove_field :: "string \<Rightarrow> document \<Rightarrow> document" where
  "remove_field f d = filter (\<lambda>(k, w). k \<noteq> f) d"

text \<open>
  Modelled from the spec: the value a join compares, where a missing field reads as null
  (MongoDB's rule for the local and foreign field of a lookup).
\<close>

definition field_or_null :: "string \<Rightarrow> document \<Rightarrow> bson_value" where
  "field_or_null f d = (case get_field f d of None \<Rightarrow> BNull | Some v \<Rightarrow> v)"

section \<open>The lookup, unwind and fused lookup-unwind stages\<close>

text \<open>
  Modelled from the spec: the arguments of a \<open>$lookup\<close> stage as scenario S4 writes them,
  \<open>{from, localField, foreignField, as}\<close>. The header
  bson\_aggregation\_pipeline\_private.h declares the handlers \<open>HandleLookup\<close> and
  \<open>HandleLookupUnwind\<close> and the test \<open>CanInlineLookupWithUnwind\<close>; their bodies, and
  the handler of \<open>$unwind\<close> (here \<open>HandleUnwind\<close>), are not among the sources.
\<close>

record LookupArgs =
  lookup_from :: string
  lookup_localField :: string
  lookup_foreignField :: string
  lookup_as :: string

text \<open>
  Modelled from the spec: the arguments of an \<open>$unwind\<close> stage: the path, written with a
  leading \<open>$\<close>, and \<open>preserveNullAndEmptyArrays\<close> (false when the stage is written in its
  short form \<open>{"$unwind": "$j"}\<close>).
\<close>

record UnwindArgs =
  unwind_path :: string
  preserveNullAndEmptyArrays :: bool

text \<open>Modelled from the spec: the errors a stage handler signals (section 4.4).\<close>

datatype StageError = StageSpecInvalid | StageNotSupported

text \<open>
  Modelled from the spec: the join condition of a lookup, \<open>A.x = B.y\<close> of scenario S4.
\<close>

definition lookup_matches :: "LookupArgs \<Rightarrow> document \<Rightarrow> document \<Rightarrow> bool" where
  "lookup_matches l a b =
     (field_or_null (lookup_localField l) a = field_or_null (lookup_foreignField l) b)"

text \<open>
  Modelled from the spec: \<open>$lookup\<close>, a left outer join: every input document is kept and
  gets, under \<open>as\<close>, the array of the documents of the foreign collection that match it.
  \<open>colls\<close> maps a collection name to its documents; a missing collection is an empty
  right-hand side (section 7).
\<close>

definition HandleLookup ::
    "(string \<Rightarrow> document list) \<Rightarrow> LookupArgs \<Rightarrow> document list \<Rightarrow> StageError + document list"
  where
  "HandleLookup colls l docs =
     Inr (map (\<lambda>a. set_field (lookup_as l)
                  (BArray (map BDocument
                     (filter (lookup_matches l a) (colls (lookup_from l))))) a)
            docs)"

text \<open>
  Modelled from the spec: the field an unwind path names: the path without its leading
  \<open>$\<close>; a path that does not start with \<open>$\<close> is a bad stage specification.
\<close>

definition unwind_field :: "UnwindArgs \<Rightarrow> string option" where
  "unwind_field u =
     (case unwind_path u of
        [] \<Rightarrow> None
      | c # p \<Rightarrow> (if c = CHR ''$'' then Some p else None))"

text \<open>
  Modelled from the spec: \<open>$unwind\<close> on one document: one output document per element of
  the array, with the field replaced by the element. An empty array, a null or a missing
  field gives no output, unless \<open>preserveNullAndEmptyArrays\<close> keeps the document (without
  the field, for an empty array). A value that is not an array counts as a single element.
\<close>

definition unwind_document :: "string \<Rightarrow> bool \<Rightarrow> document \<Rightarrow> document list" where
  "unwind_document p preserve d =
     (case get_field p d of
        Some (BArray es) \<Rightarrow>
          if es = [] then (if preserve then [remove_field p d] else [])
          else map (\<lambda>e. set_field p e d) es
      | Some BNull \<Rightarrow> (if preserve then [d] else [])
      | None \<Rightarrow> (if preserve then [d] else [])
      | Some v \<Rightarrow> [d])"

text \<open>Modelled from the spec: the \<open>$unwind\<close> stage over its input, in input order.\<close>

definition HandleUnwind :: "UnwindArgs \<Rightarrow> document list \<Rightarrow> StageError + document list" where
  "HandleUnwind u docs =
     (case unwind_field u of
        None \<Rightarrow> Inl StageSpecInvalid
      | Some p \<Rightarrow> Inr (concat (map (unwind_document p (preserveNullAndEmptyArrays u)) docs)))"

text \<open>
  Modelled from the spec: the fused stage (section 4.4, scenario S4): an inner join
  (a left join when null and empty arrays are preserved) with the unwound shape inlined:
  one output document per matching pair, the foreign document itself under \<open>as\<close>.
\<close>

definition HandleLookupUnwind ::
    "(string \<Rightarrow> document list) \<Rightarrow> LookupArgs \<Rightarrow> bool \<Rightarrow> document list \<Rightarrow>
     StageError + document list" where
  "HandleLookupUnwind colls l preserve docs =
     Inr (concat (map (\<lambda>a.
       let ms = filter (lookup_matches l a) (colls (lookup_from l)) in
       if ms = [] then (if preserve then [remove_field (lookup_as l) a] else [])
       else map (\<lambda>b. set_field (lookup_as l) (BDocument b) a) ms) docs))"

text \<open>
  Modelled from the spec: \<open>CanInlineLookupWithUnwind\<close>, declared in the header with an
  output parameter for \<open>preserveNullAndEmptyArrays\<close>: the pair can be fused when the unwind
  is on the lookup's \<open>as\<close> field; the second component is the captured flag.
\<close>

definition CanInlineLookupWithUnwind :: "LookupArgs \<Rightarrow> UnwindArgs \<Rightarrow> bool \<times> bool" where
  "CanInlineLookupWithUnwind l u =
     (unwind_path u = CHR ''$'' # lookup_as l, preserveNullAndEmptyArrays u)"

text \<open>
  Modelled from the spec: a stage of a pipeline, \<open>{name, spec}\<close> (section 3.3). The three
  stages of the fusion carry their parsed arguments; every other stage is its \<open>Stage\<close> tag
  and its specification value.
\<close>

datatype AggregationStage =
    LookupStage LookupArgs
  | UnwindStage UnwindArgs
  | LookupUnwindStage LookupArgs bool
  | OtherStage Stage bson_value

text \<open>
  Modelled from the spec: the fusion pass of the compiler (section 4.4, "Fused stages"):
  a \<open>$lookup\<close> immediately followed by an \<open>$unwind\<close> that can be inlined becomes one
  \<open>LookupUnwind\<close> stage; every other stage is kept. The pass is modelled as it runs; the
  build context's \<open>optimizePipelineStages\<close> field, which turns stage optimisation on or
  off as a whole, is not part of it.
\<close>

fun FuseLookupUnwind :: "AggregationStage list \<Rightarrow> AggregationStage list" where
  "FuseLookupUnwind (LookupStage l # UnwindStage u # rest) =
     (if fst (CanInlineLookupWithUnwind l u)
      then LookupUnwindStage l (snd (CanInlineLookupWithUnwind l u)) # FuseLookupUnwind rest
      else LookupStage l # FuseLookupUnwind (UnwindStage u # rest))"
| "FuseLookupUnwind (s # rest) = s # FuseLookupUnwind rest"
| "FuseLookupUnwind [] = []"

text \<open>
  Modelled from the spec: the handlers of the stages outside the fusion are a parameter:
  for a stage tag and a specification value, a function on the input documents.
\<close>

type_synonym stage_handlers =
  "Stage \<Rightarrow> bson_value \<Rightarrow> document list \<Rightarrow> StageError + document list"

text \<open>Modelled from the spec: the output of one stage on its input documents.\<close>

fun HandleStage ::
    "(string \<Rightarrow> document list) \<Rightarrow> stage_handlers \<Rightarrow> AggregationStage \<Rightarrow> document list \<Rightarrow>
     StageError + document list" where
  "HandleStage colls other (LookupStage l) docs = HandleLookup colls l docs"
| "HandleStage colls other (UnwindStage u) docs = HandleUnwind u docs"
| "HandleStage colls other (LookupUnwindStage l p) docs = HandleLookupUnwind colls l p docs"
| "HandleStage colls other (OtherStage s v) docs = other s v docs"

text \<open>
  Modelled from the spec: the output of a pipeline: the stages in order, each on the
  output of the one before, stopping at the first error.
\<close>

fun RunPipeline ::
    "(string \<Rightarrow> document list) \<Rightarrow> stage_handlers \<Rightarrow> AggregationStage list \<Rightarrow> document list \<Rightarrow>
     StageError + document list" where
  "RunPipeline colls other [] docs = Inr docs"
| "RunPipeline colls other (s # stages) docs =
     (case HandleStage colls other s docs of
        Inl e \<Rightarrow> Inl e
      | Inr docs' \<Rightarrow> RunPipeline colls other stages docs')"

subsection \<open>Scenario S4\<close>

text \<open>
  Collection \<open>A\<close> with field \<open>x\<close>, collection \<open>B\<close> with field \<open>y\<close>, and the pipeline
  \<open>[{$lookup: {from: "B", localField: "x", foreignField: "y", as: "j"}}, {$unwind: "$j"}]\<close>.
\<close>

definition S4_A :: "document list" where
  "S4_A = [[(''_id'', BInt32 1), (''x'', BInt32 10)],
           [(''_id'', BInt32 2), (''x'', BInt32 20)],
           [(''_id'', BInt32 3), (''x'', BInt32 30)]]"

definition S4_B :: "document list" where
  "S4_B = [[(''_id'', BInt32 7), (''y'', BInt32 10)],
           [(''_id'', BInt32 8), (''y'', BInt32 20)],
           [(''_id'', BInt32 9), (''y'', BInt32 10)]]"

definition S4_colls :: "string \<Rightarrow> document list" where
  "S4_colls n = (if n = ''B'' then S4_B else [])"

definition S4_lookup :: LookupArgs where
  "S4_lookup = \<lparr>lookup_from = ''B'', lookup_localField = ''x'', lookup_foreignField = ''y'',
     lookup_as = ''j''\<rparr>"

definition S4_unwind :: UnwindArgs where
  "S4_unwind = \<lparr>unwind_path = ''$j'', preserveNullAndEmptyArrays = False\<rparr>"

definition S4_other :: stage_handlers where
  "S4_other s v docs = Inl StageNotSupported"

definition S4_joined :: "document list" where
  "S4_joined =
     [[(''_id'', BInt32 1), (''x'', BInt32 10),
       (''j'', BDocument [(''_id'', BInt32 7), (''y'', BInt32 10)])],
      [(''_id'', BInt32 1), (''x'', BInt32 10),
       (''j'', BDocument [(''_id'', BInt32 9), (''y'', BInt32 10)])],
      [(''_id'', BInt32 2), (''x'', BInt32 20),
       (''j'', BDocument [(''_id'', BInt32 8), (''y'', BInt32 20)])]]"

section \<open>The page write loop of a cursor\<close>

text \<open>
  Modelled from the spec: the state of a page being written (section 4.5). The header
  cursor\_private.h declares \<open>DrainStreamingQuery\<close> with the parameters \<open>batchSize\<close>,
  \<open>numIterations\<close> (in and out), \<open>accumulatedSize\<close> and the array writer; its body is not
  among the sources. \<open>page_rows\<close> is what the array writer holds.
\<close>

record 'row CursorPage =
  page_rows :: "'row list"
  accumulatedSize :: nat
  numIterations :: int

text \<open>Modelled from the spec: the three ways the batching contract ends a page.\<close>

datatype PageStop = SizeLimitReached | BatchSizeReached | SourceExhausted

text \<open>
  Modelled from the spec: writing one row to the page: the row is appended, its
  serialized size is added to the accumulated size, and one more iteration is counted.
\<close>

definition write_row :: "('row \<Rightarrow> nat) \<Rightarrow> 'row \<Rightarrow> 'row CursorPage \<Rightarrow> 'row CursorPage" where
  "write_row rowSize r pg =
     pg\<lparr>page_rows := page_rows pg @ [r],
        accumulatedSize := accumulatedSize pg + rowSize r,
        numIterations := numIterations pg + 1\<rparr>"

text \<open>
  Modelled from the spec: the page write loop (Batching contract, section 4.5). The
  source is the list of rows the query still has to give, \<open>rowSize\<close> the serialized size
  of a row. The loop ends when the batch size is reached, when the source has no row
  left, or when the accumulated size plus the next candidate would exceed
  \<open>BSON_MAX_ALLOWED_SIZE\<close>; otherwise it writes the candidate and goes on. It returns why
  it stopped, the page, and the rows left in the source.
\<close>

fun DrainStreamingQuery ::
    "('row \<Rightarrow> nat) \<Rightarrow> int \<Rightarrow> 'row list \<Rightarrow> 'row CursorPage \<Rightarrow>
     PageStop \<times> 'row CursorPage \<times> 'row list" where
  "DrainStreamingQuery rowSize batchSize src pg =
     (if batchSize \<le> numIterations pg then (BatchSizeReached, pg, src)
      else case src of
        [] \<Rightarrow> (SourceExhausted, pg, [])
      | r # rest \<Rightarrow>
          if BSON_MAX_ALLOWED_SIZE < accumulatedSize pg + rowSize r
          then (SizeLimitReached, pg, src)
          else DrainStreamingQuery rowSize batchSize rest (write_row rowSize r pg))"

declare DrainStreamingQuery.simps [simp del]

text \<open>
  The three conditions of the batching contract, in the specification's words, on a page
  and the rows still in the source.
\<close>

definition size_limit_hit :: "('row \<Rightarrow> nat) \<Rightarrow> 'row list \<Rightarrow> 'row CursorPage \<Rightarrow> bool" where
  "size_limit_hit rowSize src pg =
     (case src of
        [] \<Rightarrow> False
      | r # rest \<Rightarrow> BSON_MAX_ALLOWED_SIZE < accumulatedSize pg + rowSize r)"

definition batch_size_reached :: "int \<Rightarrow> 'row CursorPage \<Rightarrow> bool" where
  "batch_size_reached batchSize pg = (batchSize \<le> numIterations pg)"

definition source_exhausted :: "'row list \<Rightarrow> bool" where
  "source_exhausted src = (src = [])"

definition page_must_stop ::
    "('row \<Rightarrow> nat) \<Rightarrow> int \<Rightarrow> 'row list \<Rightarrow> 'row CursorPage \<Rightarrow> bool" where
  "page_must_stop rowSize batchSize src pg =
     (size_limit_hit rowSize src pg \<or> batch_size_reached batchSize pg \<or> source_exhausted src)"

text \<open>The condition a stop reason names.\<close>

definition stop_matches ::
    "PageStop \<Rightarrow> ('row \<Rightarrow> nat) \<Rightarrow> int \<Rightarrow> 'row list \<Rightarrow> 'row CursorPage \<Rightarrow> bool" where
  "stop_matches why rowSize batchSize src pg =
     (case why of
        SizeLimitReached \<Rightarrow> size_limit_hit rowSize src pg
      | BatchSizeReached \<Rightarrow> batch_size_reached batchSize pg
      | SourceExhausted \<Rightarrow> source_exhausted src)"

text \<open>The page after a list of rows has been written to it, one after the other.\<close>

definition write_rows :: "('row \<Rightarrow> nat) \<Rightarrow> 'row list \<Rightarrow> 'row CursorPage \<Rightarrow> 'row CursorPage" where
  "write_rows rowSize rows pg = fold (write_row rowSize) rows pg"

subsection \<open>A page of three 6 MiB rows\<close>

text \<open>Rows stand for their own serialized size; the page starts empty.\<close>

definition six_MiB_rows :: "nat list" where
  "six_MiB_rows = [6291456, 6291456, 6291456]"

definition empty_page :: "nat CursorPage" where
  "empty_page = \<lparr>page_rows = [], accumulatedSize = 0, numIterations = 0\<rparr>"

section \<open>Theorems\<close>

subsection \<open>Leaf test of node types\<close>

lemma NodeType_IsLeaf_bit: "NodeType_IsLeaf x = bit x 7"
proof -
  have "((x AND (0x80 :: 32 word)) \<noteq> 0) = bit x 7"
    using and_exp_eq_0_iff_not_bit [of x 7] by simp
  then show ?thesis
    by (simp add: NodeType_IsLeaf_def LEAF_NODE_BASE_def)
qed

text \<open>
  Claim C10. For every member \<open>t\<close> of the enum, \<open>NodeType_IsLeaf\<close> on its value is true
  exactly for the five leaf kinds (so it is false for \<open>None\<close> and \<open>Intermediate\<close>), and
  the test is the same as asking whether bit \<open>0x80\<close> (bit 7) of the value is set.
\<close>

theorem NodeType_IsLeaf_five_leaf_kinds:
  "NodeType_IsLeaf (NodeType_value t) =
     (t \<in> {NodeType_LeafIncluded, NodeType_LeafExcluded, NodeType_LeafField,
            NodeType_LeafWithArrayField, NodeType_LeafFieldWithContext})
   \<and> NodeType_IsLeaf (NodeType_value t) = (t \<noteq> NodeType_None \<and> t \<noteq> NodeType_Intermediate)
   \<and> NodeType_IsLeaf (NodeType_value t) = bit (NodeType_value t) 7"
  by (cases t) (simp_all add: NodeType_IsLeaf_def LEAF_NODE_BASE_def flip: NodeType_IsLeaf_bit)

subsection \<open>The closed set of stages\<close>

lemma Stage_value_inject: "Stage_value s = Stage_value s' \<Longrightarrow> s = s'"
  by (cases s; cases s'; simp)

text \<open>
  Claim C9, as the specification states it, fails on the enum: \<open>Stage_InverseMatch\<close>
  (value 100, in the block of custom or internal stages) is a stage of the compiler and is
  neither one of the listed public stages nor one of the two internal stages the
  specification names; the public stages \<open>Stage_Bucket\<close> and \<open>Stage_SearchMeta\<close> are
  outside the listed set as well.
\<close>

theorem stage_set_not_spec_listed_counterexample:
  "Stage_is_stage Stage_InverseMatch \<and> Stage_is_internal_or_custom Stage_InverseMatch
   \<and> Stage_InverseMatch \<notin> spec_stage_set
   \<and> Stage_is_public Stage_Bucket \<and> Stage_Bucket \<notin> spec_stage_set
   \<and> Stage_is_public Stage_SearchMeta \<and> Stage_SearchMeta \<notin> spec_stage_set"
  by (simp add: Stage_is_stage_def Stage_is_internal_or_custom_def Stage_is_public_def
      spec_stage_set_def spec_public_stages_def spec_internal_stages_def)

text \<open>
  Claim C9, amended. The enum is a closed set: every stage other than \<open>Stage_Invalid\<close>
  is one of the stages the specification lists or one of \<open>Stage_Bucket\<close>,
  \<open>Stage_SearchMeta\<close> and \<open>Stage_InverseMatch\<close>, and nothing else is a stage. Its public
  stages are the thirty-six listed ones together with \<open>Stage_Bucket\<close> and
  \<open>Stage_SearchMeta\<close>; its internal or custom stages are exactly three,
  \<open>Stage_Internal_InhibitOptimization\<close>, \<open>Stage_InverseMatch\<close> and \<open>Stage_LookupUnwind\<close>.
\<close>

theorem stage_set_closed:
  "Stage_is_stage s =
     (s \<in> spec_stage_set \<union> {Stage_Bucket, Stage_SearchMeta, Stage_InverseMatch})
   \<and> Stage_is_public s = (s \<in> set spec_public_stages \<union> {Stage_Bucket, Stage_SearchMeta})
   \<and> Stage_is_internal_or_custom s =
       (s \<in> {Stage_Internal_InhibitOptimization, Stage_InverseMatch, Stage_LookupUnwind})"
  by (cases s)
    (simp_all add: Stage_is_stage_def Stage_is_internal_or_custom_def Stage_is_public_def
      spec_stage_set_def spec_public_stages_def spec_internal_stages_def)

subsection \<open>Fusion of lookup and unwind\<close>

lemma set_field_twice: "set_field f v (set_field f w d) = set_field f v d"
  by (induction d) auto

lemma get_field_set_field: "get_field f (set_field f v d) = Some v"
  by (induction d) (auto simp: get_field_def)

lemma remove_field_set_field: "remove_field f (set_field f v d) = remove_field f d"
  by (induction d) (auto simp: remove_field_def)

lemma unwind_document_after_lookup:
  "unwind_document f preserve (set_field f (BArray (map BDocument ms)) a) =
     (if ms = [] then (if preserve then [remove_field f a] else [])
      else map (\<lambda>b. set_field f (BDocument b) a) ms)"
  by (simp add: unwind_document_def get_field_set_field set_field_twice
      remove_field_set_field comp_def)

lemma unwind_after_lookup:
  assumes "fst (CanInlineLookupWithUnwind l u)"
  shows "(case HandleLookup colls l docs of Inl e \<Rightarrow> Inl e | Inr mid \<Rightarrow> HandleUnwind u mid) =
         HandleLookupUnwind colls l (snd (CanInlineLookupWithUnwind l u)) docs"
proof -
  from assms have p: "unwind_field u = Some (lookup_as l)"
    by (simp add: CanInlineLookupWithUnwind_def unwind_field_def)
  show ?thesis
    by (simp add: HandleLookup_def HandleUnwind_def HandleLookupUnwind_def p
        CanInlineLookupWithUnwind_def unwind_document_after_lookup comp_def Let_def)
qed

text \<open>The fusion pass never changes what a pipeline computes, errors included.\<close>

lemma RunPipeline_FuseLookupUnwind:
  "RunPipeline colls other (FuseLookupUnwind stages) docs = RunPipeline colls other stages docs"
proof (induction stages arbitrary: docs rule: FuseLookupUnwind.induct)
  case (1 l u rest)
  show ?case
  proof (cases "fst (CanInlineLookupWithUnwind l u)")
    case True
    have "RunPipeline colls other (LookupStage l # UnwindStage u # rest) docs =
          (case (case HandleLookup colls l docs of
                   Inl e \<Rightarrow> Inl e | Inr mid \<Rightarrow> HandleUnwind u mid) of
             Inl e \<Rightarrow> Inl e | Inr out \<Rightarrow> RunPipeline colls other rest out)"
      by (simp split: sum.splits)
    also have "\<dots> =
          (case HandleLookupUnwind colls l (snd (CanInlineLookupWithUnwind l u)) docs of
             Inl e \<Rightarrow> Inl e | Inr out \<Rightarrow> RunPipeline colls other rest out)"
      by (simp only: unwind_after_lookup [OF True])
    finally show ?thesis
      using True "1.IH"(1) by (simp split: sum.splits)
  next
    case False
    then show ?thesis
      using "1.IH"(2) by (simp split: sum.splits)
  qed
qed (simp_all split: sum.splits)

text \<open>A lookup stage starts a fresh window of the pass, whatever precedes it.\<close>

lemma FuseLookupUnwind_append_Lookup:
  "FuseLookupUnwind (pre @ LookupStage l # rest) =
   FuseLookupUnwind pre @ FuseLookupUnwind (LookupStage l # rest)"
  by (induction pre rule: FuseLookupUnwind.induct) auto

text \<open>
  Claim C1. In every pipeline where a \<open>$lookup\<close> is immediately followed by an \<open>$unwind\<close>
  on the lookup's \<open>as\<close> field with \<open>preserveNullAndEmptyArrays = false\<close>, whatever stages
  come before and after, the pass puts the single stage \<open>LookupUnwind\<close> in the place of the
  two; the fused stage alone gives the same set of documents (or the same error) as the
  lookup followed by the unwind; and the pipeline after the pass gives exactly what the
  pipeline before it gives.
\<close>

theorem lookup_unwind_fusion:
  assumes "unwind_path u = CHR ''$'' # lookup_as l"
    and "\<not> preserveNullAndEmptyArrays u"
  shows "FuseLookupUnwind (pre @ LookupStage l # UnwindStage u # post) =
           FuseLookupUnwind pre @ LookupUnwindStage l False # FuseLookupUnwind post
       \<and> map_sum id set (RunPipeline colls other [LookupUnwindStage l False] docs) =
           map_sum id set (RunPipeline colls other [LookupStage l, UnwindStage u] docs)
       \<and> RunPipeline colls other
             (FuseLookupUnwind (pre @ LookupStage l # UnwindStage u # post)) docs =
           RunPipeline colls other (pre @ LookupStage l # UnwindStage u # post) docs"
proof -
  from assms have can: "fst (CanInlineLookupWithUnwind l u)"
    and pres: "snd (CanInlineLookupWithUnwind l u) = False"
    by (simp_all add: CanInlineLookupWithUnwind_def)
  have a: "FuseLookupUnwind (pre @ LookupStage l # UnwindStage u # post) =
           FuseLookupUnwind pre @ LookupUnwindStage l False # FuseLookupUnwind post"
    using can pres by (simp add: FuseLookupUnwind_append_Lookup)
  have "RunPipeline colls other [LookupUnwindStage l False] docs =
        RunPipeline colls other (FuseLookupUnwind [LookupStage l, UnwindStage u]) docs"
    using can pres by simp
  then have b: "RunPipeline colls other [LookupUnwindStage l False] docs =
        RunPipeline colls other [LookupStage l, UnwindStage u] docs"
    by (simp only: RunPipeline_FuseLookupUnwind)
  have c: "RunPipeline colls other
             (FuseLookupUnwind (pre @ LookupStage l # UnwindStage u # post)) docs =
           RunPipeline colls other (pre @ LookupStage l # UnwindStage u # post) docs"
    by (rule RunPipeline_FuseLookupUnwind)
  from a b c show ?thesis
    by (simp only: simp_thms)
qed

text \<open>
  Scenario S4 as a witness: the unwind is on \<open>$j\<close>, the lookup's \<open>as\<close> field, and does not
  preserve empty arrays; the pass emits the one fused stage; fused and unfused pipelines
  both give the inner join on \<open>A.x = B.y\<close>.
\<close>

theorem lookup_unwind_fusion_witness:
  "unwind_path S4_unwind = CHR ''$'' # lookup_as S4_lookup
   \<and> \<not> preserveNullAndEmptyArrays S4_unwind
   \<and> FuseLookupUnwind [LookupStage S4_lookup, UnwindStage S4_unwind] =
       [LookupUnwindStage S4_lookup False]
   \<and> RunPipeline S4_colls S4_other [LookupUnwindStage S4_lookup False] S4_A = Inr S4_joined
   \<and> RunPipeline S4_colls S4_other [LookupStage S4_lookup, UnwindStage S4_unwind] S4_A =
       Inr S4_joined"
proof -
  have h1: "unwind_path S4_unwind = CHR ''$'' # lookup_as S4_lookup"
    by (simp add: S4_unwind_def S4_lookup_def)
  have h2: "\<not> preserveNullAndEmptyArrays S4_unwind"
    by (simp add: S4_unwind_def)
  note fusion = lookup_unwind_fusion [OF h1 h2, of "[]" "[]" S4_colls S4_other S4_A]
  from fusion have emitted:
    "FuseLookupUnwind [LookupStage S4_lookup, UnwindStage S4_unwind] =
       [LookupUnwindStage S4_lookup False]"
    by simp
  have fused: "RunPipeline S4_colls S4_other [LookupUnwindStage S4_lookup False] S4_A =
       Inr S4_joined"
    by (simp add: HandleLookupUnwind_def lookup_matches_def field_or_null_def get_field_def
        S4_lookup_def S4_colls_def S4_A_def S4_B_def S4_joined_def)
  have same:
    "RunPipeline S4_colls S4_other [LookupUnwindStage S4_lookup False] S4_A =
     RunPipeline S4_colls S4_other [LookupStage S4_lookup, UnwindStage S4_unwind] S4_A"
    using fusion [THEN conjunct2, THEN conjunct2] unfolding append_Nil emitted .
  from h1 h2 emitted fused same show ?thesis
    by (simp only: simp_thms)
qed

subsection \<open>The page write loop\<close>

lemma stop_matches_must_stop:
  "stop_matches why rowSize batchSize src pg \<Longrightarrow> page_must_stop rowSize batchSize src pg"
  by (cases why) (simp_all add: stop_matches_def page_must_stop_def)

text \<open>
  Claim C3. The loop writes a prefix of the source, \<open>k\<close> rows, and stops there: at that
  point the condition its stop reason names holds (the accumulated size plus the next
  candidate would exceed the 16 MiB limit, or the batch size is reached, or the source is
  exhausted), and at no earlier point \<open>j < k\<close> did any of the three conditions hold. So the
  loop stops exactly where one of the three conditions first holds.
\<close>

theorem page_loop_stops_at_first_condition:
  "\<exists>k\<le>length src.
     DrainStreamingQuery rowSize batchSize src pg =
       (fst (DrainStreamingQuery rowSize batchSize src pg),
        write_rows rowSize (take k src) pg, drop k src)
     \<and> stop_matches (fst (DrainStreamingQuery rowSize batchSize src pg)) rowSize batchSize
          (drop k src) (write_rows rowSize (take k src) pg)
     \<and> page_must_stop rowSize batchSize (drop k src) (write_rows rowSize (take k src) pg)
     \<and> (\<forall>j<k. \<not> page_must_stop rowSize batchSize (drop j src)
                  (write_rows rowSize (take j src) pg))"
proof (induction rowSize batchSize src pg rule: DrainStreamingQuery.induct)
  case (1 rowSize batchSize src pg)
  show ?case
  proof (cases "batchSize \<le> numIterations pg")
    case True
    then show ?thesis
      by (intro exI [of _ 0])
         (simp add: DrainStreamingQuery.simps [of rowSize batchSize src pg] write_rows_def
            stop_matches_def page_must_stop_def batch_size_reached_def)
  next
    case notfull: False
    show ?thesis
    proof (cases src)
      case Nil
      with notfull show ?thesis
        by (intro exI [of _ 0])
           (simp add: DrainStreamingQuery.simps [of rowSize batchSize "[]" pg] write_rows_def
              stop_matches_def page_must_stop_def source_exhausted_def)
    next
      case (Cons r rest)
      show ?thesis
      proof (cases "BSON_MAX_ALLOWED_SIZE < accumulatedSize pg + rowSize r")
        case True
        with notfull Cons show ?thesis
          by (intro exI [of _ 0])
             (simp add: DrainStreamingQuery.simps [of rowSize batchSize "r # rest" pg]
                write_rows_def stop_matches_def page_must_stop_def size_limit_hit_def)
      next
        case fits: False
        let ?pg = "write_row rowSize r pg"
        have step: "DrainStreamingQuery rowSize batchSize src pg =
                    DrainStreamingQuery rowSize batchSize rest ?pg"
          using notfull Cons fits
          by (simp add: DrainStreamingQuery.simps [of rowSize batchSize "r # rest" pg])
        from "1.IH" [OF notfull Cons fits]
        obtain k where k: "k \<le> length rest"
          and res: "DrainStreamingQuery rowSize batchSize rest ?pg =
             (fst (DrainStreamingQuery rowSize batchSize rest ?pg),
              write_rows rowSize (take k rest) ?pg, drop k rest)"
          and stop: "stop_matches (fst (DrainStreamingQuery rowSize batchSize rest ?pg)) rowSize
             batchSize (drop k rest) (write_rows rowSize (take k rest) ?pg)"
          and first: "\<forall>j<k. \<not> page_must_stop rowSize batchSize (drop j rest)
                  (write_rows rowSize (take j rest) ?pg)"
          by blast
        have now: "\<not> page_must_stop rowSize batchSize src pg"
          using notfull Cons fits
          by (simp add: page_must_stop_def size_limit_hit_def batch_size_reached_def
              source_exhausted_def)
        have earlier: "\<forall>j<Suc k. \<not> page_must_stop rowSize batchSize (drop j src)
                  (write_rows rowSize (take j src) pg)"
        proof (intro allI impI)
          fix j assume "j < Suc k"
          show "\<not> page_must_stop rowSize batchSize (drop j src)
                  (write_rows rowSize (take j src) pg)"
          proof (cases j)
            case 0
            with now show ?thesis by (simp add: write_rows_def)
          next
            case (Suc j')
            with \<open>j < Suc k\<close> first Cons show ?thesis
              by (simp add: write_rows_def)
          qed
        qed
        from stop have must: "page_must_stop rowSize batchSize (drop k rest)
             (write_rows rowSize (take k rest) ?pg)"
          by (rule stop_matches_must_stop)
        from k res stop must earlier step Cons show ?thesis
          by (intro exI [of _ "Suc k"]) (simp add: write_rows_def)
      qed
    qed
  qed
qed

text \<open>
  A witness: three rows of 6 MiB each and a batch size of 10. Two rows are written
  (12 MiB); the third would bring the page to 18 MiB, over the limit, so the loop stops
  there with the size reason, and at neither of the two earlier points did a condition
  hold.
\<close>

theorem page_loop_stops_at_first_condition_witness:
  "DrainStreamingQuery (\<lambda>r. r) 10 six_MiB_rows empty_page =
     (SizeLimitReached,
      \<lparr>page_rows = [6291456, 6291456], accumulatedSize = 12582912, numIterations = 2\<rparr>,
      [6291456])
   \<and> page_must_stop (\<lambda>r. r) 10 (drop 2 six_MiB_rows)
        (write_rows (\<lambda>r. r) (take 2 six_MiB_rows) empty_page)
   \<and> \<not> page_must_stop (\<lambda>r. r) 10 (drop 0 six_MiB_rows)
        (write_rows (\<lambda>r. r) (take 0 six_MiB_rows) empty_page)
   \<and> \<not> page_must_stop (\<lambda>r. r) 10 (drop 1 six_MiB_rows)
        (write_rows (\<lambda>r. r) (take 1 six_MiB_rows) empty_page)
   \<and> (\<exists>k\<le>length six_MiB_rows.
        DrainStreamingQuery (\<lambda>r. r) 10 six_MiB_rows empty_page =
          (fst (DrainStreamingQuery (\<lambda>r. r) 10 six_MiB_rows empty_page),
           write_rows (\<lambda>r. r) (take k six_MiB_rows) empty_page, drop k six_MiB_rows)
        \<and> k = 2)"
proof -
  have run: "DrainStreamingQuery (\<lambda>r. r) 10 six_MiB_rows empty_page =
     (SizeLimitReached,
      \<lparr>page_rows = [6291456, 6291456], accumulatedSize = 12582912, numIterations = 2\<rparr>,
      [6291456])"
    by (simp add: DrainStreamingQuery.simps write_row_def BSON_MAX_ALLOWED_SIZE_def
        six_MiB_rows_def empty_page_def)
  have stop2: "page_must_stop (\<lambda>r. r) 10 (drop 2 six_MiB_rows)
        (write_rows (\<lambda>r. r) (take 2 six_MiB_rows) empty_page)"
    by (simp add: page_must_stop_def size_limit_hit_def write_rows_def write_row_def
        BSON_MAX_ALLOWED_SIZE_def six_MiB_rows_def empty_page_def)
  have go0: "\<not> page_must_stop (\<lambda>r. r) 10 (drop 0 six_MiB_rows)
        (write_rows (\<lambda>r. r) (take 0 six_MiB_rows) empty_page)"
    by (simp add: page_must_stop_def size_limit_hit_def batch_size_reached_def
        source_exhausted_def write_rows_def write_row_def
        BSON_MAX_ALLOWED_SIZE_def six_MiB_rows_def empty_page_def)
  have go1: "\<not> page_must_stop (\<lambda>r. r) 10 (drop 1 six_MiB_rows)
        (write_rows (\<lambda>r. r) (take 1 six_MiB_rows) empty_page)"
    by (simp add: page_must_stop_def size_limit_hit_def batch_size_reached_def
        source_exhausted_def write_rows_def write_row_def
        BSON_MAX_ALLOWED_SIZE_def six_MiB_rows_def empty_page_def)
  from page_loop_stops_at_first_condition [of six_MiB_rows "\<lambda>r. r" 10 empty_page]
  obtain k where k: "k \<le> length six_MiB_rows"
    and res: "DrainStreamingQuery (\<lambda>r. r) 10 six_MiB_rows empty_page =
          (fst (DrainStreamingQuery (\<lambda>r. r) 10 six_MiB_rows empty_page),
           write_rows (\<lambda>r. r) (take k six_MiB_rows) empty_page, drop k six_MiB_rows)"
    and must: "page_must_stop (\<lambda>r. r) 10 (drop k six_MiB_rows)
          (write_rows (\<lambda>r. r) (take k six_MiB_rows) empty_page)"
    and first: "\<forall>j<k. \<not> page_must_stop (\<lambda>r. r) 10 (drop j six_MiB_rows)
          (write_rows (\<lambda>r. r) (take j six_MiB_rows) empty_page)"
    by blast
  have "k = 2"
  proof (rule ccontr)
    assume "k \<noteq> 2"
    then consider "k < 2" | "2 < k" by linarith
    then show False
    proof cases
      case 1
      then have "k = 0 \<or> k = 1" by linarith
      with must go0 go1 show False by blast
    next
      case 2
      with first stop2 show False by blast
    qed
  qed
  with k res have "\<exists>k\<le>length six_MiB_rows.
        DrainStreamingQuery (\<lambda>r. r) 10 six_MiB_rows empty_page =
          (fst (DrainStreamingQuery (\<lambda>r. r) 10 six_MiB_rows empty_page),
           write_rows (\<lambda>r. r) (take k six_MiB_rows) empty_page, drop k six_MiB_rows)
        \<and> k = 2"
    by blast
  with run stop2 go0 go1 show ?thesis
    by (simp only: simp_thms)
qed

end
